theory Spec2Isabelle
  imports Main "HOL-Library.Sublist" "HOL-Library.Multiset"
begin

section \<open>Python strings\<close>

text \<open>
  A Python \<open>str\<close> is modelled as a HOL \<open>string\<close>; a \<open>char\<close> stands for one code point
  in the range 0..255, so \<open>length\<close> is Python's \<open>len\<close> on such text.
\<close>

definition is_space :: "char \<Rightarrow> bool" where
  \<comment> \<open>the code points below 256 for which \<open>str.isspace\<close> holds; \<open>str.strip()\<close> removes them\<close>
  "is_space c = (c \<in> set [CHR 0x09, CHR 0x0A, CHR 0x0B, CHR 0x0C, CHR 0x0D,
                             CHR 0x1C, CHR 0x1D, CHR 0x1E, CHR 0x1F, CHR 0x20,
                             CHR 0x85, CHR 0xA0])"

definition strip :: "string \<Rightarrow> string" where
  \<comment> \<open>\<open>s.strip()\<close>\<close>
  "strip s = rev (dropWhile is_space (rev (dropWhile is_space s)))"

definition digit_char :: "nat \<Rightarrow> char" where
  "digit_char n = char_of (48 + n)"

fun str_nat :: "nat \<Rightarrow> string" where
  "str_nat n = (if n < 10 then [digit_char n] else str_nat (n div 10) @ [digit_char (n mod 10)])"

declare str_nat.simps [simp del]

definition str_int :: "int \<Rightarrow> string" where
  \<comment> \<open>\<open>str(i)\<close>, as an f-string renders an integer\<close>
  "str_int i = (if i < 0 then CHR ''-'' # str_nat (nat (- i)) else str_nat (nat i))"

definition py_slice_to :: "int \<Rightarrow> 'a list \<Rightarrow> 'a list" where
  \<comment> \<open>\<open>xs[:n]\<close>: a negative bound counts from the end\<close>
  "py_slice_to n xs = (if 0 \<le> n then take (nat n) xs else take (length xs - nat (- n)) xs)"

fun join :: "string \<Rightarrow> string list \<Rightarrow> string" where
  \<comment> \<open>\<open>sep.join(xs)\<close>\<close>
  "join sep [] = []"
| "join sep [x] = x"
| "join sep (x # y # ys) = x @ sep @ join sep (y # ys)"

section \<open>Python dictionaries with insertion order\<close>

text \<open>
  A \<open>dict\<close> keeps its keys in the order of their first insertion; storing under a key
  that is present replaces the value and leaves the position.
\<close>

type_synonym ('k, 'v) dict = "('k \<times> 'v) list"

fun dict_set :: "'k \<Rightarrow> 'v \<Rightarrow> ('k, 'v) dict \<Rightarrow> ('k, 'v) dict" where
  \<comment> \<open>\<open>d[k] = v\<close>\<close>
  "dict_set k v [] = [(k, v)]"
| "dict_set k v (p # d) = (if fst p = k then (k, v) # d else p # dict_set k v d)"

definition dict_of :: "('k \<times> 'v) list \<Rightarrow> ('k, 'v) dict" where
  \<comment> \<open>the comprehension \<open>{k: v for ...}\<close>: the pairs are stored one after the other\<close>
  "dict_of ps = foldl (\<lambda>d p. dict_set (fst p) (snd p) d) [] ps"

definition dict_values :: "('k, 'v) dict \<Rightarrow> 'v list" where
  "dict_values d = map snd d"

definition dict_get :: "('k, 'v) dict \<Rightarrow> 'k \<Rightarrow> 'v option" where
  \<comment> \<open>\<open>None\<close> is the absent key: \<open>k in d\<close> is false and \<open>d[k]\<close> raises KeyError\<close>
  "dict_get d k = map_of d k"

section \<open>utils.py: the source aggregator\<close>

datatype raw = Missing | PyNone | Text string
  \<comment> \<open>the \<open>raw_content\<close> entry of a result: key absent, \<open>None\<close>, or a string\<close>

record source =
  title :: string
  url :: string
  content :: string
  raw_content :: raw

record response =
  query :: string
  results :: "source list"

definition sources_list :: "response list \<Rightarrow> source list" where
  \<comment> \<open>\<open>for response in search_response: sources_list.extend(response['results'])\<close>\<close>
  "sources_list search_response = foldl (\<lambda>acc response. acc @ results response) [] search_response"

definition unique_sources :: "source list \<Rightarrow> (string, source) dict" where
  \<comment> \<open>\<open>{source['url']: source for source in sources_list}\<close>\<close>
  "unique_sources srcs = dict_of (map (\<lambda>s. (url s, s)) srcs)"

definition raw_text :: "int \<Rightarrow> source \<Rightarrow> string" where
  \<comment> \<open>lines 47 to 53: the text of the full content that is emitted (the warning printed
      for \<open>None\<close> goes to standard output and is left out)\<close>
  "raw_text max_tokens_per_source s =
     (let char_limit = max_tokens_per_source * 4;
          rc = (case raw_content s of Missing \<Rightarrow> [] | PyNone \<Rightarrow> [] | Text r \<Rightarrow> r)
      in if int (length rc) > char_limit
         then py_slice_to char_limit rc @ ''... [truncated]''
         else rc)"

definition format_source :: "int \<Rightarrow> bool \<Rightarrow> source \<Rightarrow> string" where
  \<comment> \<open>the text one pass of the loop appends\<close>
  "format_source max_tokens_per_source include_raw_content s =
     ''Source '' @ title s @ '':\<newline>===\<newline>''
     @ ''URL: '' @ url s @ ''\<newline>===\<newline>''
     @ ''Most relevant content from source: '' @ content s @ ''\<newline>===\<newline>''
     @ (if include_raw_content
        then ''Full source content limited to '' @ str_int max_tokens_per_source
             @ '' tokens: '' @ raw_text max_tokens_per_source s @ ''\<newline>\<newline>''
        else [])"

definition deduplicate_and_format_sources :: "response list \<Rightarrow> int \<Rightarrow> bool \<Rightarrow> string" where
  "deduplicate_and_format_sources search_response max_tokens_per_source include_raw_content =
     strip (foldl (\<lambda>formatted_text s.
                      formatted_text @ format_source max_tokens_per_source include_raw_content s)
                  ''Sources:\<newline>\<newline>''
                  (dict_values (unique_sources (sources_list search_response))))"

section \<open>state.py: the data model\<close>

record PodcastSegment =
  title :: string
  duration :: string
  description :: string
  research :: bool
  dialogue :: string

datatype grade = Pass | Fail

record DialogueFeedback =
  grade :: grade
  improvement_suggestions :: "string list"
  revised_transcript :: "string option"
  follow_up_queries :: "string list"

record PodcastState =
  segments :: "PodcastSegment list"
  completed_segments :: "PodcastSegment list option"
    \<comment> \<open>\<open>None\<close>: the key is not in the state, \<open>state.get("completed_segments", [])\<close> gives \<open>[]\<close>\<close>

record SegmentState =
  segment :: PodcastSegment
  search_iterations :: int
  search_queries :: "string list"
  source_str :: string
  host :: string
  guest :: string

definition get_completed :: "PodcastState \<Rightarrow> PodcastSegment list" where
  \<comment> \<open>\<open>state.get("completed_segments", [])\<close>\<close>
  "get_completed state = (case completed_segments state of None \<Rightarrow> [] | Some cs \<Rightarrow> cs)"

definition merge_completed :: "PodcastSegment list \<Rightarrow> PodcastSegment list \<Rightarrow> PodcastSegment list" where
  \<comment> \<open>\<open>completed_segments: Annotated[list, operator.add]\<close>: an update is merged into the
      accumulator by list concatenation\<close>
  "merge_completed acc update = acc @ update"

datatype error = ValueError string | AttributeError string | KeyError string | TypeError string

section \<open>configuration.py\<close>

datatype pyval = PNone | PBool bool | PInt int | PStr string | PEnum string string string
  \<comment> \<open>the values a configuration field holds; \<open>PEnum cls member value\<close> is an \<open>Enum\<close> member\<close>

fun truthy :: "pyval \<Rightarrow> bool" where
  "truthy PNone = False"
| "truthy (PBool b) = b"
| "truthy (PInt i) = (i \<noteq> 0)"
| "truthy (PStr s) = (s \<noteq> [])"
| "truthy (PEnum c m v) = True"

fun py_str :: "pyval \<Rightarrow> string" where
  \<comment> \<open>how an f-string renders the value\<close>
  "py_str PNone = ''None''"
| "py_str (PBool b) = (if b then ''True'' else ''False'')"
| "py_str (PInt i) = str_int i"
| "py_str (PStr s) = s"
| "py_str (PEnum c m v) = c @ ''.'' @ m"

fun get_config_value :: "pyval \<Rightarrow> error + string" where
  \<comment> \<open>utils.py: \<open>value if isinstance(value, str) else value.value\<close>; a value that is
      neither a text nor an \<open>Enum\<close> member has no attribute \<open>value\<close>\<close>
  "get_config_value (PStr s) = Inr s"
| "get_config_value (PEnum c m v) = Inr v"
| "get_config_value v = Inl (AttributeError ''value'')"

definition upper_char :: "char \<Rightarrow> char" where
  "upper_char c = (let n = (of_char c :: nat) in if 97 \<le> n \<and> n \<le> 122 then char_of (n - 32) else c)"

definition upper :: "string \<Rightarrow> string" where
  \<comment> \<open>\<open>s.upper()\<close> on ASCII text, which the field names are\<close>
  "upper s = map upper_char s"

definition lower_char :: "char \<Rightarrow> char" where
  "lower_char c = (let n = (of_char c :: nat) in if 65 \<le> n \<and> n \<le> 90 then char_of (n + 32) else c)"

definition lower :: "string \<Rightarrow> string" where
  \<comment> \<open>\<open>s.lower()\<close> on ASCII text\<close>
  "lower s = map lower_char s"

definition DEFAULT_PODCAST_STRUCTURE :: string where
  "DEFAULT_PODCAST_STRUCTURE =
     ''\<newline>Use this structure to create a 30-minute podcast dialogue:\<newline>''
   @ ''\<newline>1. Opening (2-3 minutes)\<newline>''
   @ ''   - Host introduction (30 seconds)\<newline>''
   @ ''   - Guest introduction (30-60 seconds)\<newline>''
   @ ''   - Topic overview (1 minute)\<newline>''
   @ ''\<newline>2. Main Segments (24-25 minutes total)\<newline>''
   @ ''   - 3-4 key discussion topics\<newline>''
   @ ''   - Each segment 6-8 minutes\<newline>''
   @ ''   \<newline>3. Closing (2-3 minutes)\<newline>''
   @ ''   - Key takeaways (1 minute)\<newline>''
   @ ''   - Guest final thoughts (30-60 seconds)\<newline>''
   @ ''   - Host wrap-up (30 seconds)\<newline>''"

record Configuration =
  podcast_structure :: pyval
  number_of_queries :: pyval
  max_search_depth :: pyval
  planner_provider :: pyval
  planner_model :: pyval
  writer_provider :: pyval
  writer_model :: pyval
  search_api :: pyval

record RunnableConfig =
  configurable :: "(string \<rightharpoonup> pyval) option"
    \<comment> \<open>the \<open>"configurable"\<close> entry of the config dict; \<open>None\<close>: the key is absent\<close>

definition field_value :: "(string \<rightharpoonup> string) \<Rightarrow> (string \<rightharpoonup> pyval) \<Rightarrow> string \<Rightarrow> pyval" where
  \<comment> \<open>\<open>os.environ.get(f.name.upper(), configurable.get(f.name))\<close>\<close>
  "field_value environ cfg name =
     (case environ (upper name) of
        Some v \<Rightarrow> PStr v
      | None \<Rightarrow> (case cfg name of Some v \<Rightarrow> v | None \<Rightarrow> PNone))"

definition from_runnable_config ::
  "(string \<rightharpoonup> string) \<Rightarrow> RunnableConfig option \<Rightarrow> Configuration" where
  \<comment> \<open>\<open>cls(**{k: v for k, v in values.items() if v})\<close>: a field whose value is falsy is
      left out and takes the dataclass default\<close>
  "from_runnable_config environ config =
     (let cfg = (case config of
                   None \<Rightarrow> Map.empty
                 | Some c \<Rightarrow> (case configurable c of None \<Rightarrow> Map.empty | Some d \<Rightarrow> d));
          field = (\<lambda>name default.
                     let v = field_value environ cfg name in if truthy v then v else default)
      in \<lparr> podcast_structure = field ''podcast_structure'' (PStr DEFAULT_PODCAST_STRUCTURE),
           number_of_queries = field ''number_of_queries'' (PInt 15),
           max_search_depth = field ''max_search_depth'' (PInt 4),
           planner_provider = field ''planner_provider'' (PEnum ''PlannerProvider'' ''OPENAI'' ''openai''),
           planner_model = field ''planner_model'' (PStr ''gpt-4o''),
           writer_provider = field ''writer_provider'' (PEnum ''WriterProvider'' ''ANTHROPIC'' ''anthropic''),
           writer_model = field ''writer_model'' (PStr ''claude-3-5-sonnet-latest''),
           search_api = field ''search_api'' (PEnum ''SearchAPI'' ''TAVILY'' ''tavily'') \<rparr>)"

section \<open>utils.py: format_segments\<close>

definition format_segment :: "nat \<Rightarrow> PodcastSegment \<Rightarrow> string" where
  \<comment> \<open>the f-string one pass of the loop appends, \<open>idx\<close> counting from 1\<close>
  "format_segment idx s =
     ''\<newline>           '' @ replicate 60 (CHR ''='')
   @ ''\<newline>           Segment '' @ str_nat idx @ '': '' @ title s
   @ ''\<newline>           '' @ replicate 60 (CHR ''='')
   @ ''\<newline>           Duration: '' @ duration s
   @ ''\<newline>           Description: '' @ description s
   @ ''\<newline>           Requires Research: '' @ (if research s then ''True'' else ''False'')
   @ ''\<newline>\<newline>           Dialogue:''
   @ ''\<newline>           '' @ (if dialogue s \<noteq> [] then dialogue s else ''[Not yet written]'')
   @ ''\<newline>       ''"

fun format_segments_from :: "nat \<Rightarrow> PodcastSegment list \<Rightarrow> string" where
  "format_segments_from idx [] = []"
| "format_segments_from idx (s # ss) = format_segment idx s @ format_segments_from (Suc idx) ss"

definition format_segments :: "PodcastSegment list \<Rightarrow> string" where
  "format_segments segs = format_segments_from 1 segs"

section \<open>graph.py\<close>

text \<open>
  The language model and the search provider are outside the program. Their answers are
  taken from a \<open>world\<close>: any function may stand for them, so a statement for every world
  is a statement for every answer they give. The drafts and the gradings are indexed by
  the value of \<open>search_iterations\<close> at the call of \<open>write_dialogue\<close>. A search that raises
  is the answer \<open>None\<close>. The nodes of the sub-workflow read their configuration values
  with \<open>get_config_value\<close>, which raises on a value that is neither a text nor an enum
  member; \<open>init_chat_model\<close> itself belongs to the outside and is taken to succeed. For
  \<open>write_intro_outro\<close> the whole set-up of the chat model is taken to succeed: what is
  stated about that stage is about the runs in which the stage gets to write.
\<close>

record world =
  environ :: "string \<rightharpoonup> string"
  tavily_search_async :: "string list \<Rightarrow> response list option"
    \<comment> \<open>\<open>None\<close>: the search raises\<close>
  queries_for :: "PodcastSegment \<Rightarrow> string list"
  drafts :: "int \<Rightarrow> string"
  feedbacks :: "int \<Rightarrow> DialogueFeedback"
  final_writer :: "string \<Rightarrow> string \<Rightarrow> string"
    \<comment> \<open>segment type and context to the dialogue of an intro or outro\<close>



definition generate_queries :: "world \<Rightarrow> RunnableConfig option \<Rightarrow> SegmentState \<Rightarrow> error + SegmentState" where
  "generate_queries w config state =
     (let cfg = from_runnable_config (environ w) config in
      case get_config_value (writer_provider cfg) of
        Inl e \<Rightarrow> Inl e
      | Inr writer_provider_name \<Rightarrow>
          (case get_config_value (writer_model cfg) of
             Inl e \<Rightarrow> Inl e
           | Inr writer_model_name \<Rightarrow>
               Inr (state\<lparr> search_queries := queries_for w (segment state) \<rparr>)))"

definition search_web :: "world \<Rightarrow> RunnableConfig option \<Rightarrow> SegmentState \<Rightarrow> error + SegmentState" where
  "search_web w config state =
     (let cfg = from_runnable_config (environ w) config in
      case get_config_value (search_api cfg) of
        Inl e \<Rightarrow> Inl e
      | Inr search_api_name \<Rightarrow>
          (case tavily_search_async w (search_queries state) of
             None \<Rightarrow> Inl (ValueError (''Unsupported search API: '' @ py_str (search_api cfg)))
           | Some search_results \<Rightarrow>
               Inr (state\<lparr> source_str := deduplicate_and_format_sources search_results 500 True,
                            search_iterations := search_iterations state + 1 \<rparr>)))"

definition config_attr :: "RunnableConfig option \<Rightarrow> string \<Rightarrow> error + pyval" where
  \<comment> \<open>\<open>config.name\<close>, an attribute read on the config itself. The config is a \<open>dict\<close>
      (from_runnable_config subscripts it, app.py builds it as a dict literal) or \<open>None\<close>;
      the entries of a dict are not attributes, so the read of a name that is no dict
      method raises AttributeError\<close>
  "config_attr config name = Inl (AttributeError name)"

fun py_ge :: "int \<Rightarrow> pyval \<Rightarrow> error + bool" where
  \<comment> \<open>\<open>i >= v\<close> for an int \<open>i\<close>\<close>
  "py_ge i (PInt d) = Inr (i \<ge> d)"
| "py_ge i (PBool b) = Inr (i \<ge> (if b then 1 else 0))"
| "py_ge i v = Inl (TypeError ''>='')"

datatype command =
    Goto_END "PodcastSegment list"
      \<comment> \<open>\<open>Command(update={"completed_segments": [segment]}, goto=END)\<close>\<close>
  | Goto_search_web "string list" PodcastSegment
      \<comment> \<open>\<open>Command(update={"search_queries": ..., "segment": segment}, goto="search_web")\<close>\<close>

definition write_dialogue :: "world \<Rightarrow> RunnableConfig option \<Rightarrow> SegmentState \<Rightarrow> error + command" where
  "write_dialogue w config state =
     (let cfg = from_runnable_config (environ w) config in
      case get_config_value (writer_model cfg) of
        Inl e \<Rightarrow> Inl e
      | Inr writer_model_name \<Rightarrow>
          (case get_config_value (writer_provider cfg) of
             Inl e \<Rightarrow> Inl e
           | Inr writer_provider_name \<Rightarrow>
               (let seg = (segment state)\<lparr> dialogue := drafts w (search_iterations state) \<rparr>;
                    feedback = feedbacks w (search_iterations state)
                in if grade feedback = Pass then Inr (Goto_END [seg])
                   else case config_attr config ''max_search_depth'' of
                          Inl e \<Rightarrow> Inl e
                        | Inr d \<Rightarrow>
                            (case py_ge (search_iterations state) d of
                               Inl e \<Rightarrow> Inl e
                             | Inr True \<Rightarrow> Inr (Goto_END [seg])
                             | Inr False \<Rightarrow>
                                 Inr (Goto_search_web (follow_up_queries feedback) seg)))))"

text \<open>
  The sub-workflow: \<open>generate_queries\<close>, then \<open>search_web\<close> and \<open>write_dialogue\<close> in turn
  until \<open>write_dialogue\<close> goes to END. The graph has a cycle and no bound of its own, so
  the run is a partial function: \<open>None\<close> is the run that never ends. A finished run gives
  its outcome and the final value of \<open>search_iterations\<close>, the number of searches made.
\<close>

partial_function (option) segment_loop ::
  "world \<Rightarrow> RunnableConfig option \<Rightarrow> SegmentState \<Rightarrow> ((error + PodcastSegment list) \<times> int) option" where
  "segment_loop w config state =
     (case search_web w config state of
        Inl e \<Rightarrow> Some (Inl e, search_iterations state)
      | Inr state1 \<Rightarrow>
          (case write_dialogue w config state1 of
             Inl e \<Rightarrow> Some (Inl e, search_iterations state1)
           | Inr (Goto_END update) \<Rightarrow> Some (Inr update, search_iterations state1)
           | Inr (Goto_search_web qs seg) \<Rightarrow>
               segment_loop w config (state1\<lparr> search_queries := qs, segment := seg \<rparr>)))"

definition build_segment_with_research ::
  "world \<Rightarrow> RunnableConfig option \<Rightarrow> PodcastSegment \<Rightarrow> string \<Rightarrow> string
     \<Rightarrow> ((error + PodcastSegment list) \<times> int) option" where
  \<comment> \<open>the sub-workflow on the state that generate_podcast_plan sends:
      \<open>{"segment": s, "search_iterations": 0, "host": host, "guest": guest}\<close>\<close>
  "build_segment_with_research w config s h g =
     (case generate_queries w config
             \<lparr> segment = s, search_iterations = 0, search_queries = [],
               source_str = [], host = h, guest = g \<rparr> of
        Inl e \<Rightarrow> Some (Inl e, 0)
      | Inr state \<Rightarrow> segment_loop w config state)"

definition find_titled :: "string \<Rightarrow> PodcastSegment list \<Rightarrow> PodcastSegment option" where
  \<comment> \<open>\<open>next((s for s in segments if s.title.lower() == name), None)\<close>\<close>
  "find_titled name segs = List.find (\<lambda>s. lower (title s) = name) segs"

fun set_dialogue_of :: "PodcastSegment \<Rightarrow> string \<Rightarrow> PodcastSegment list \<Rightarrow> PodcastSegment list" where
  \<comment> \<open>the assignment \<open>x.dialogue = d\<close> seen from the list that holds the object \<open>x\<close>:
      its first element equal to \<open>x\<close> is the object\<close>
  "set_dialogue_of x d [] = []"
| "set_dialogue_of x d (s # ss) = (if s = x then s\<lparr> dialogue := d \<rparr> # ss else s # set_dialogue_of x d ss)"

record intro_outro_update =
  segments_after :: "PodcastSegment list"
    \<comment> \<open>the planned segments, two of them written in place\<close>
  updated_completed :: "PodcastSegment list"
  episode_segments_from_research :: string

definition write_intro_outro :: "world \<Rightarrow> PodcastState \<Rightarrow> intro_outro_update" where
  \<comment> \<open>\<open>x in completed\<close> compares with \<open>==\<close>, and two pydantic models of one class are equal
      when all their fields are: the equality of the record\<close>
  "write_intro_outro w state =
     (let segs = segments state;
          completed = get_completed state;
          intro_segment = find_titled ''intro'' segs;
          outro_segment = find_titled ''outro'' segs;
          episode_segments = format_segments completed;
          (segs1, new1) =
            (case intro_segment of
               Some s \<Rightarrow>
                 if s \<notin> set completed
                 then (let d = final_writer w ''opening'' episode_segments
                       in (set_dialogue_of s d segs, [s\<lparr> dialogue := d \<rparr>]))
                 else (segs, [])
             | None \<Rightarrow> (segs, []));
          (segs2, new2) =
            (case outro_segment of
               Some s \<Rightarrow>
                 if s \<notin> set completed
                 then (let d = final_writer w ''closing'' episode_segments
                       in (set_dialogue_of s d segs1, new1 @ [s\<lparr> dialogue := d \<rparr>]))
                 else (segs1, new1)
             | None \<Rightarrow> (segs1, new1));
          updated = completed @ new2
      in \<lparr> segments_after = segs2, updated_completed = updated,
           episode_segments_from_research = format_segments updated \<rparr>)"


definition completed_dict :: "PodcastSegment list \<Rightarrow> (string, string) dict" where
  \<comment> \<open>compile_final_transcript: \<open>{s.title: s.dialogue for s in ...}\<close>\<close>
  "completed_dict cs = dict_of (map (\<lambda>s. (title s, dialogue s)) cs)"

fun assign_dialogues :: "(string, string) dict \<Rightarrow> PodcastSegment list \<Rightarrow> error + PodcastSegment list" where
  \<comment> \<open>\<open>for segment in segments: segment.dialogue = completed_segments[segment.title]\<close>\<close>
  "assign_dialogues d [] = Inr []"
| "assign_dialogues d (s # ss) =
     (case dict_get d (title s) of
        None \<Rightarrow> Inl (KeyError (title s))
      | Some dlg \<Rightarrow>
          (case assign_dialogues d ss of
             Inl e \<Rightarrow> Inl e
           | Inr ss' \<Rightarrow> Inr (s\<lparr> dialogue := dlg \<rparr> # ss')))"

definition compile_final_transcript :: "PodcastState \<Rightarrow> error + string" where
  "compile_final_transcript state =
     (let segs = segments state;
          completed = completed_dict (get_completed state);
          missing = map title (filter (\<lambda>s. dict_get completed (title s) = None) segs)
      in if missing \<noteq> []
         then Inl (ValueError (''Missing processed segments: '' @ join '', '' missing))
         else case assign_dialogues completed segs of
                Inl e \<Rightarrow> Inl e
              | Inr segs' \<Rightarrow> Inr (join ''\<newline>\<newline>'' (map dialogue segs')))"

section \<open>podcast_generator.py: preprocess_transcript\<close>

fun split_on :: "string \<Rightarrow> string \<Rightarrow> string list" where
  \<comment> \<open>\<open>s.split(sep)\<close> for a separator that is not empty: cut at each occurrence found
      scanning from the left\<close>
  "split_on sep [] = [[]]"
| "split_on sep (c # cs) =
     (if sep \<noteq> [] \<and> prefix sep (c # cs)
      then [] # split_on sep (drop (length sep) (c # cs))
      else (case split_on sep cs of [] \<Rightarrow> [[c]] | p # ps \<Rightarrow> (c # p) # ps))"

fun replace :: "string \<Rightarrow> string \<Rightarrow> string \<Rightarrow> string" where
  \<comment> \<open>\<open>s.replace(old, new)\<close> for an \<open>old\<close> that is not empty: every occurrence found
      scanning from the left, none overlapping another\<close>
  "replace old new [] = []"
| "replace old new (c # cs) =
     (if old \<noteq> [] \<and> prefix old (c # cs)
      then new @ replace old new (drop (length old) (c # cs))
      else c # replace old new cs)"

record utterance =
  role :: string
  spoken :: string
    \<comment> \<open>the entry \<open>text\<close> of the dict\<close>

fun conversations_loop :: "string \<Rightarrow> string \<Rightarrow> string list \<Rightarrow> utterance list \<Rightarrow> utterance list" where
  "conversations_loop host_name guest_name [] conversations = conversations"
| "conversations_loop host_name guest_name (l # ls) conversations =
     (let line = strip l in
      if line = [] then conversations_loop host_name guest_name ls conversations
      else if prefix (host_name @ '':'') line
      then conversations_loop host_name guest_name ls
             (conversations @ [\<lparr> role = ''host'', spoken = strip (replace (host_name @ '':'') [] line) \<rparr>])
      else if prefix (guest_name @ '':'') line
      then conversations_loop host_name guest_name ls
             (conversations @ [\<lparr> role = ''guest'', spoken = strip (replace (guest_name @ '':'') [] line) \<rparr>])
      else conversations_loop host_name guest_name ls conversations)"

definition preprocess_transcript :: "string \<Rightarrow> string \<Rightarrow> string \<Rightarrow> utterance list" where
  \<comment> \<open>\<open>re.sub(r'\*+', '', transcript)\<close> deletes every asterisk\<close>
  "preprocess_transcript transcript host_name guest_name =
     conversations_loop host_name guest_name
       (split_on ''\<newline>'' (filter (\<lambda>c. c \<noteq> CHR ''*'') transcript)) []"

section \<open>Notions used in the statements\<close>



definition last_dialogue :: "string \<Rightarrow> PodcastSegment list \<Rightarrow> string option" where
  \<comment> \<open>the dialogue of the last segment of the list that has the title\<close>
  "last_dialogue t cs = map_option dialogue (List.find (\<lambda>s. title s = t) (rev cs))"

definition seg :: "string \<Rightarrow> string \<Rightarrow> PodcastSegment" where
  \<comment> \<open>a segment with the given title and dialogue, for the examples\<close>
  "seg t d = \<lparr> title = t, duration = ''60'', description = ''about '' @ t, research = True, dialogue = d \<rparr>"

definition override_of :: "RunnableConfig option \<Rightarrow> string \<Rightarrow> pyval option" where
  \<comment> \<open>the per-call override of a field: its entry under \<open>"configurable"\<close>, if any\<close>
  "override_of config name =
     (case config of None \<Rightarrow> None
      | Some c \<Rightarrow> (case configurable c of None \<Rightarrow> None | Some d \<Rightarrow> d name))"

definition resolved :: "string option \<Rightarrow> pyval option \<Rightarrow> pyval \<Rightarrow> pyval" where
  \<comment> \<open>the precedence of the code: the environment variable when it is set (the default
      when it is set to the empty text), else the override unless it is falsy, else the
      default\<close>
  "resolved env_value override dflt =
     (case env_value of
        Some v \<Rightarrow> if v \<noteq> [] then PStr v else dflt
      | None \<Rightarrow> (case override of
                   Some v \<Rightarrow> if truthy v then v else dflt
                 | None \<Rightarrow> dflt))"

definition failing_world :: world where
  \<comment> \<open>a world whose searches succeed and whose grader fails every draft\<close>
  "failing_world =
     \<lparr> environ = Map.empty,
       tavily_search_async = (\<lambda>qs. Some []),
       queries_for = (\<lambda>s. [''q'']),
       drafts = (\<lambda>i. ''draft''),
       feedbacks = (\<lambda>i. \<lparr> grade = Fail, improvement_suggestions = [], revised_transcript = None,
                            follow_up_queries = [''more''] \<rparr>),
       final_writer = (\<lambda>kind context. ''text'') \<rparr>"




definition line_entries :: "string \<Rightarrow> string \<Rightarrow> string \<Rightarrow> utterance list" where
  \<comment> \<open>the entry of a stripped line, if any: its text is the pieces between the occurrences
      of the label of the speaker, put together and stripped\<close>
  "line_entries host_name guest_name line =
     (if prefix (host_name @ '':'') line
      then [\<lparr> role = ''host'', spoken = strip (concat (split_on (host_name @ '':'') line)) \<rparr>]
      else if prefix (guest_name @ '':'') line
      then [\<lparr> role = ''guest'', spoken = strip (concat (split_on (guest_name @ '':'') line)) \<rparr>]
      else [])"

section \<open>The source aggregator\<close>


lemma map_of_dict_set: "map_of (dict_set k v d) = (map_of d)(k \<mapsto> v)"
  by (induction d) (auto simp: fun_eq_iff)

lemma dict_of_snoc: "dict_of (ps @ [p]) = dict_set (fst p) (snd p) (dict_of ps)"
  by (simp add: dict_of_def)

lemma dict_of_Nil: "dict_of [] = []"
  by (simp add: dict_of_def)





lemma map_of_dict_of: "map_of (dict_of ps) = map_of (rev ps)"
proof (induction ps rule: rev_induct)
  case Nil
  show ?case by (simp add: dict_of_Nil)
next
  case (snoc p ps)
  then show ?case
    by (cases p) (simp add: dict_of_snoc map_of_dict_set fun_eq_iff)
qed

lemma foldl_append_concat: "foldl (\<lambda>acc x. acc @ f x) a xs = a @ concat (map f xs)"
  by (induction xs arbitrary: a) simp_all

lemma sources_list_concat: "sources_list rs = concat (map results rs)"
  by (simp add: sources_list_def foldl_append_concat)







lemma strip_header: "strip ''Sources:\<newline>\<newline>'' = ''Sources:''"
  by (simp add: strip_def is_space_def)


text \<open>
  C6, as stated, fails on the output of \<open>deduplicate_and_format_sources\<close>. The whole text
  is stripped at the end, so the full content of the last source loses its trailing
  whitespace: the content \<open>ab\<close> followed by two blanks, at the limit of 4 characters, is
  emitted as \<open>ab\<close>. And a negative budget makes the slice count from the end: with the
  budget -1 the content \<open>abcdef\<close> is cut to \<open>ab\<close>, not to -4 characters.
\<close>

theorem full_content_stripped_or_cut_from_end_counterexample:
  "deduplicate_and_format_sources
     [\<lparr>query = ''q'', results = [\<lparr>source.title = ''T'', url = ''u'', content = ''c'',
                                  raw_content = Text ''ab  ''\<rparr>]\<rparr>] 1 True
     = ''Sources:\<newline>\<newline>Source T:\<newline>===\<newline>URL: u\<newline>===\<newline>Most relevant content from source: c\<newline>===\<newline>Full source content limited to 1 tokens: ab''
   \<and> deduplicate_and_format_sources
     [\<lparr>query = ''q'', results = [\<lparr>source.title = ''T'', url = ''u'', content = ''c'',
                                  raw_content = Text ''abcdef''\<rparr>]\<rparr>] (- 1) True
     = ''Sources:\<newline>\<newline>Source T:\<newline>===\<newline>URL: u\<newline>===\<newline>Most relevant content from source: c\<newline>===\<newline>Full source content limited to -1 tokens: ab... [truncated]''"
  by code_simp

text \<open>
  C6, amended. With raw content requested, the output of \<open>deduplicate_and_format_sources\<close>
  is the header followed by one block for each unique source, the whole stripped at both
  ends; the block of a source ends with the line of its full content and an empty line.
  For a budget that is not negative the full content in that block is cut to exactly
  \<open>max_tokens_per_source * 4\<close> characters and followed by the marker \<open>... [truncated]\<close> when
  it is longer than that, is unchanged and without marker when it is not, and is empty when
  the entry is absent or \<open>None\<close>. Only the final strip changes the text after that: it
  removes the whitespace at the end of the last block, that of its full content included.
\<close>

theorem full_content_limited_in_output:
  "deduplicate_and_format_sources search_response m True
     = strip (''Sources:\<newline>\<newline>''
              @ concat (map (\<lambda>s. ''Source '' @ source.title s @ '':\<newline>===\<newline>''
                                  @ ''URL: '' @ url s @ ''\<newline>===\<newline>''
                                  @ ''Most relevant content from source: '' @ content s
                                  @ ''\<newline>===\<newline>''
                                  @ ''Full source content limited to '' @ str_int m @ '' tokens: ''
                                  @ raw_text m s @ ''\<newline>\<newline>'')
                            (dict_values (unique_sources (sources_list search_response)))))
   \<and> (0 \<le> m \<longrightarrow>
         (\<forall>r. raw_content s = Text r \<and> length r > nat (m * 4) \<longrightarrow>
                raw_text m s = take (nat (m * 4)) r @ ''... [truncated]''
                \<and> length (take (nat (m * 4)) r) = nat (m * 4))
       \<and> (\<forall>r. raw_content s = Text r \<and> length r \<le> nat (m * 4) \<longrightarrow> raw_text m s = r)
       \<and> (raw_content s = Missing \<or> raw_content s = PyNone \<longrightarrow> raw_text m s = []))"
proof -
  have "format_source m True = (\<lambda>s. ''Source '' @ source.title s @ '':\<newline>===\<newline>''
                                  @ ''URL: '' @ url s @ ''\<newline>===\<newline>''
                                  @ ''Most relevant content from source: '' @ content s
                                  @ ''\<newline>===\<newline>''
                                  @ ''Full source content limited to '' @ str_int m @ '' tokens: ''
                                  @ raw_text m s @ ''\<newline>\<newline>'')"
    by (rule ext) (simp add: format_source_def)
  then have out: "deduplicate_and_format_sources search_response m True
     = strip (''Sources:\<newline>\<newline>''
              @ concat (map (\<lambda>s. ''Source '' @ source.title s @ '':\<newline>===\<newline>''
                                  @ ''URL: '' @ url s @ ''\<newline>===\<newline>''
                                  @ ''Most relevant content from source: '' @ content s
                                  @ ''\<newline>===\<newline>''
                                  @ ''Full source content limited to '' @ str_int m @ '' tokens: ''
                                  @ raw_text m s @ ''\<newline>\<newline>'')
                            (dict_values (unique_sources (sources_list search_response)))))"
    by (simp only: deduplicate_and_format_sources_def foldl_append_concat)
  have "0 \<le> m \<longrightarrow>
         (\<forall>r. raw_content s = Text r \<and> length r > nat (m * 4) \<longrightarrow>
                raw_text m s = take (nat (m * 4)) r @ ''... [truncated]''
                \<and> length (take (nat (m * 4)) r) = nat (m * 4))
       \<and> (\<forall>r. raw_content s = Text r \<and> length r \<le> nat (m * 4) \<longrightarrow> raw_text m s = r)
       \<and> (raw_content s = Missing \<or> raw_content s = PyNone \<longrightarrow> raw_text m s = [])"
    by (auto simp: raw_text_def py_slice_to_def Let_def)
  with out show ?thesis by (rule conjI)
qed

theorem full_content_limited_in_output_witness:
  "deduplicate_and_format_sources
     [\<lparr>query = ''q'',
       results = [\<lparr>source.title = ''T'', url = ''u'', content = ''c'', raw_content = Text ''abcdefgh''\<rparr>,
                  \<lparr>source.title = ''S'', url = ''v'', content = ''d'', raw_content = Text ''abcd''\<rparr>,
                  \<lparr>source.title = ''R'', url = ''w'', content = ''e'', raw_content = PyNone\<rparr>]\<rparr>] 1 True
     = ''Sources:\<newline>\<newline>Source T:\<newline>===\<newline>URL: u\<newline>===\<newline>Most relevant content from source: c\<newline>===\<newline>Full source content limited to 1 tokens: abcd... [truncated]\<newline>\<newline>Source S:\<newline>===\<newline>URL: v\<newline>===\<newline>Most relevant content from source: d\<newline>===\<newline>Full source content limited to 1 tokens: abcd\<newline>\<newline>Source R:\<newline>===\<newline>URL: w\<newline>===\<newline>Most relevant content from source: e\<newline>===\<newline>Full source content limited to 1 tokens:''
   \<and> raw_text 1 \<lparr>source.title = ''T'', url = ''u'', content = ''c'', raw_content = Text ''abcdefgh''\<rparr>
       = ''abcd... [truncated]''
   \<and> raw_text 1 \<lparr>source.title = ''S'', url = ''v'', content = ''d'', raw_content = Text ''abcd''\<rparr>
       = ''abcd''
   \<and> raw_text 1 \<lparr>source.title = ''R'', url = ''w'', content = ''e'', raw_content = PyNone\<rparr> = []
   \<and> raw_text 1 \<lparr>source.title = ''R'', url = ''w'', content = ''e'', raw_content = Missing\<rparr> = []"
proof -
  have e: "deduplicate_and_format_sources
     [\<lparr>query = ''q'',
       results = [\<lparr>source.title = ''T'', url = ''u'', content = ''c'', raw_content = Text ''abcdefgh''\<rparr>,
                  \<lparr>source.title = ''S'', url = ''v'', content = ''d'', raw_content = Text ''abcd''\<rparr>,
                  \<lparr>source.title = ''R'', url = ''w'', content = ''e'', raw_content = PyNone\<rparr>]\<rparr>] 1 True
     = ''Sources:\<newline>\<newline>Source T:\<newline>===\<newline>URL: u\<newline>===\<newline>Most relevant content from source: c\<newline>===\<newline>Full source content limited to 1 tokens: abcd... [truncated]\<newline>\<newline>Source S:\<newline>===\<newline>URL: v\<newline>===\<newline>Most relevant content from source: d\<newline>===\<newline>Full source content limited to 1 tokens: abcd\<newline>\<newline>Source R:\<newline>===\<newline>URL: w\<newline>===\<newline>Most relevant content from source: e\<newline>===\<newline>Full source content limited to 1 tokens:''"
    by code_simp
  show ?thesis
    using e
      full_content_limited_in_output
        [of "[]" 1 "\<lparr>source.title = ''T'', url = ''u'', content = ''c'', raw_content = Text ''abcdefgh''\<rparr>"]
      full_content_limited_in_output
        [of "[]" 1 "\<lparr>source.title = ''S'', url = ''v'', content = ''d'', raw_content = Text ''abcd''\<rparr>"]
      full_content_limited_in_output
        [of "[]" 1 "\<lparr>source.title = ''R'', url = ''w'', content = ''e'', raw_content = PyNone\<rparr>"]
      full_content_limited_in_output
        [of "[]" 1 "\<lparr>source.title = ''R'', url = ''w'', content = ''e'', raw_content = Missing\<rparr>"]
    by simp
qed

text \<open>
  C9. When there is no response, or no response has a result, the function returns the
  header alone, stripped: the text \<open>Sources:\<close>, with no block of a source.
\<close>

theorem no_results_gives_bare_header:
  assumes "\<forall>r\<in>set search_response. results r = []"
  shows "deduplicate_and_format_sources search_response m incl = ''Sources:''
         \<and> dict_values (unique_sources (sources_list search_response)) = []"
proof -
  from assms have "sources_list search_response = []"
    by (simp add: sources_list_concat)
  then show ?thesis
    by (simp add: deduplicate_and_format_sources_def unique_sources_def dict_of_Nil
        dict_values_def strip_header)
qed

theorem no_results_gives_bare_header_witness:
  "deduplicate_and_format_sources [] 500 True = ''Sources:''
   \<and> deduplicate_and_format_sources
        [\<lparr>query = ''q'', results = []\<rparr>, \<lparr>query = ''p'', results = []\<rparr>] 500 True = ''Sources:''"
  using no_results_gives_bare_header [of "[]" 500 True]
        no_results_gives_bare_header
          [of "[\<lparr>query = ''q'', results = []\<rparr>, \<lparr>query = ''p'', results = []\<rparr>]" 500 True]
  by simp

section \<open>The transcript compiler and the accumulator\<close>

lemma map_of_title_pairs:
  "map_of (map (\<lambda>s. (title s, dialogue s)) xs) t = map_option dialogue (List.find (\<lambda>s. title s = t) xs)"
  by (induction xs) auto

lemma completed_dict_lookup: "dict_get (completed_dict cs) t = last_dialogue t cs"
  by (simp add: dict_get_def completed_dict_def map_of_dict_of last_dialogue_def rev_map
      map_of_title_pairs)

lemma last_dialogue_None: "last_dialogue t cs = None \<longleftrightarrow> t \<notin> title ` set cs"
  by (auto simp: last_dialogue_def find_None_iff)

lemma last_dialogue_snoc:
  "last_dialogue t (cs @ [c]) = (if title c = t then Some (dialogue c) else last_dialogue t cs)"
  by (simp add: last_dialogue_def)

lemma last_dialogue_Nil: "last_dialogue t [] = None"
  by (simp add: last_dialogue_def)

lemma last_dialogue_in:
  "last_dialogue t cs = Some d \<Longrightarrow> \<exists>s\<in>set cs. title s = t \<and> dialogue s = d"
  by (induction cs rule: rev_induct) (auto simp: last_dialogue_Nil last_dialogue_snoc split: if_splits)

lemma assign_dialogues_blocks:
  "assign_dialogues d segs = Inr segs' \<Longrightarrow>
     map Some (map dialogue segs') = map (\<lambda>s. dict_get d (title s)) segs"
  by (induction segs arbitrary: segs') (auto split: option.splits sum.splits)

lemma assign_dialogues_total:
  "\<forall>s\<in>set segs. dict_get d (title s) \<noteq> None \<Longrightarrow> \<exists>segs'. assign_dialogues d segs = Inr segs'"
  by (induction segs) (auto split: option.splits sum.splits)

lemma assign_dialogues_cong:
  "\<forall>s\<in>set segs. dict_get d (title s) = dict_get d' (title s) \<Longrightarrow>
     assign_dialogues d segs = assign_dialogues d' segs"
  by (induction segs) (auto split: option.splits sum.splits)

lemma compile_cong:
  assumes "segments st = segments st'"
    and "\<And>t. last_dialogue t (get_completed st) = last_dialogue t (get_completed st')"
  shows "compile_final_transcript st = compile_final_transcript st'"
proof -
  have "assign_dialogues (completed_dict (get_completed st)) (segments st')
          = assign_dialogues (completed_dict (get_completed st')) (segments st')"
    by (rule assign_dialogues_cong) (simp add: completed_dict_lookup assms(2))
  then show ?thesis
    by (simp add: compile_final_transcript_def Let_def completed_dict_lookup assms)
qed

lemma last_dialogue_set:
  assumes "set cs' = set cs"
    and "\<forall>a\<in>set cs. \<forall>b\<in>set cs. title a = title b \<longrightarrow> dialogue a = dialogue b"
  shows "last_dialogue t cs' = last_dialogue t cs"
proof (cases "last_dialogue t cs")
  case None
  then have "last_dialogue t cs' = None"
    using assms(1) by (simp add: last_dialogue_None)
  with None show ?thesis by simp
next
  case (Some d)
  then obtain s where s: "s \<in> set cs" "title s = t" "dialogue s = d"
    using last_dialogue_in by blast
  have "last_dialogue t cs' \<noteq> None"
    using s assms(1) by (auto simp: last_dialogue_None)
  then obtain d' where d': "last_dialogue t cs' = Some d'" by auto
  then obtain s' where "s' \<in> set cs'" "title s' = t" "dialogue s' = d'"
    using last_dialogue_in by blast
  with s assms have "d' = d" by metis
  with d' Some show ?thesis by simp
qed

lemma seg_simps: "title (seg t d) = t" "dialogue (seg t d) = d"
  by (simp_all add: seg_def)

text \<open>
  C3. When the title of some planned segment is not the title of any segment of the
  accumulator, \<open>compile_final_transcript\<close> fails with a ValueError whose message lists,
  after \<open>Missing processed segments: \<close>, every planned title that is absent, in plan
  order and separated by commas. The witness is the plan \<open>[A, B, C]\<close> against the
  accumulators \<open>{A, C}\<close>, which reports \<open>B\<close>, and \<open>{A}\<close>, which reports \<open>B, C\<close>.
\<close>
theorem compile_reports_every_missing_title:
  assumes "\<exists>s\<in>set (segments st). title s \<notin> title ` set (get_completed st)"
  shows "compile_final_transcript st
           = Inl (ValueError (''Missing processed segments: ''
                   @ join '', '' (filter (\<lambda>t. t \<notin> title ` set (get_completed st))
                                         (map title (segments st)))))"
proof -
  have m: "map title (filter (\<lambda>s. dict_get (completed_dict (get_completed st)) (title s) = None) (segments st))
        = filter (\<lambda>t. t \<notin> title ` set (get_completed st)) (map title (segments st))"
    by (simp add: completed_dict_lookup last_dialogue_None filter_map comp_def)
  from assms
  have "filter (\<lambda>s. dict_get (completed_dict (get_completed st)) (title s) = None) (segments st) \<noteq> []"
    by (simp add: filter_empty_conv completed_dict_lookup last_dialogue_None)
  then have ne: "map title (filter (\<lambda>s. dict_get (completed_dict (get_completed st)) (title s) = None)
                                   (segments st)) \<noteq> []"
    by simp
  show ?thesis
    unfolding compile_final_transcript_def Let_def m [symmetric] by (rule if_P [OF ne])
qed

theorem compile_reports_every_missing_title_witness:
  "compile_final_transcript \<lparr> segments = [seg ''A'' [], seg ''B'' [], seg ''C'' []],
       completed_segments = Some [seg ''A'' ''a'', seg ''C'' ''c''] \<rparr>
     = Inl (ValueError ''Missing processed segments: B'')
   \<and> compile_final_transcript \<lparr> segments = [seg ''A'' [], seg ''B'' [], seg ''C'' []],
       completed_segments = Some [seg ''A'' ''a''] \<rparr>
     = Inl (ValueError ''Missing processed segments: B, C'')"
  using compile_reports_every_missing_title [of "\<lparr> segments = [seg ''A'' [], seg ''B'' [], seg ''C'' []],
       completed_segments = Some [seg ''A'' ''a'', seg ''C'' ''c''] \<rparr>"]
     compile_reports_every_missing_title [of "\<lparr> segments = [seg ''A'' [], seg ''B'' [], seg ''C'' []],
       completed_segments = Some [seg ''A'' ''a''] \<rparr>"]
  by (simp add: get_completed_def seg_simps)

text \<open>
  C4, as stated, fails: the transcript is not independent of the order in which the
  segments were appended when two entries of the accumulator share a title and differ in
  their dialogue. The dict built from the accumulator keeps the entry appended last.
\<close>
theorem compile_depends_on_append_order_counterexample:
  "mset [seg ''A'' ''x'', seg ''A'' ''y''] = mset [seg ''A'' ''y'', seg ''A'' ''x'']
   \<and> compile_final_transcript \<lparr> segments = [seg ''A'' []], completed_segments = Some [seg ''A'' ''x'', seg ''A'' ''y''] \<rparr> = Inr ''y''
   \<and> compile_final_transcript \<lparr> segments = [seg ''A'' []], completed_segments = Some [seg ''A'' ''y'', seg ''A'' ''x''] \<rparr> = Inr ''x''"
  by (simp add: compile_final_transcript_def get_completed_def completed_dict_def dict_of_def dict_get_def seg_def)

text \<open>
  C4, amended. When every planned title is present in the accumulator, the transcript is
  the dialogues of the planned segments in plan order, joined by one blank line, where
  the dialogue of a planned segment is that of the last entry of the accumulator with its
  title. The transcript is the same for every accumulator with the same entries, in
  whatever order they were appended, provided that entries with the same title have the
  same dialogue (in particular when the titles of the accumulator are distinct). The
  function takes the state alone: no generation call is made.
\<close>
theorem compile_concatenates_in_plan_order:
  assumes "\<forall>s\<in>set (segments st). title s \<in> title ` set (get_completed st)"
  shows "(\<exists>blocks. compile_final_transcript st = Inr (join ''\<newline>\<newline>'' blocks)
            \<and> map Some blocks = map (\<lambda>s. last_dialogue (title s) (get_completed st)) (segments st))
         \<and> (\<forall>cs'. set cs' = set (get_completed st)
                \<and> (\<forall>a\<in>set (get_completed st). \<forall>b\<in>set (get_completed st).
                      title a = title b \<longrightarrow> dialogue a = dialogue b)
              \<longrightarrow> compile_final_transcript (st\<lparr> completed_segments := Some cs' \<rparr>)
                    = compile_final_transcript st)"
proof (intro conjI allI impI)
  let ?d = "completed_dict (get_completed st)"
  have present: "\<forall>s\<in>set (segments st). dict_get ?d (title s) \<noteq> None"
    using assms by (simp add: completed_dict_lookup last_dialogue_None)
  then obtain segs' where a: "assign_dialogues ?d (segments st) = Inr segs'"
    using assign_dialogues_total by blast
  from present have "filter (\<lambda>s. dict_get ?d (title s) = None) (segments st) = []"
    by (simp add: filter_empty_conv)
  with a have "compile_final_transcript st = Inr (join ''\<newline>\<newline>'' (map dialogue segs'))"
    by (simp add: compile_final_transcript_def Let_def)
  moreover have "map Some (map dialogue segs')
                   = map (\<lambda>s. last_dialogue (title s) (get_completed st)) (segments st)"
    using assign_dialogues_blocks [OF a] by (simp add: completed_dict_lookup)
  ultimately show "\<exists>blocks. compile_final_transcript st = Inr (join ''\<newline>\<newline>'' blocks)
            \<and> map Some blocks = map (\<lambda>s. last_dialogue (title s) (get_completed st)) (segments st)"
    by blast
next
  fix cs'
  assume h: "set cs' = set (get_completed st)
     \<and> (\<forall>a\<in>set (get_completed st). \<forall>b\<in>set (get_completed st).
                      title a = title b \<longrightarrow> dialogue a = dialogue b)"
  show "compile_final_transcript (st\<lparr> completed_segments := Some cs' \<rparr>) = compile_final_transcript st"
  proof (rule compile_cong)
    show "segments (st\<lparr> completed_segments := Some cs' \<rparr>) = segments st" by simp
  next
    fix t
    from h have h1: "set cs' = set (get_completed st)" by (rule conjunct1)
    from h have h2: "\<forall>a\<in>set (get_completed st). \<forall>b\<in>set (get_completed st).
                      title a = title b \<longrightarrow> dialogue a = dialogue b" by (rule conjunct2)
    have "last_dialogue t cs' = last_dialogue t (get_completed st)"
      by (rule last_dialogue_set [OF h1 h2])
    then show "last_dialogue t (get_completed (st\<lparr> completed_segments := Some cs' \<rparr>))
                 = last_dialogue t (get_completed st)"
      by (simp add: get_completed_def)
  qed
qed

theorem compile_concatenates_in_plan_order_witness:
  "compile_final_transcript
     \<lparr> segments = [seg ''Intro'' [], seg ''T1'' [], seg ''T2'' [], seg ''Outro'' []],
       completed_segments = Some [seg ''T2'' ''c'', seg ''Intro'' ''a'', seg ''Outro'' ''d'', seg ''T1'' ''b''] \<rparr>
     = Inr ''a\<newline>\<newline>b\<newline>\<newline>c\<newline>\<newline>d''
   \<and> compile_final_transcript
     \<lparr> segments = [seg ''Intro'' [], seg ''T1'' [], seg ''T2'' [], seg ''Outro'' []],
       completed_segments = Some [seg ''Intro'' ''a'', seg ''T1'' ''b'', seg ''T2'' ''c'', seg ''Outro'' ''d''] \<rparr>
     = Inr ''a\<newline>\<newline>b\<newline>\<newline>c\<newline>\<newline>d''"
proof -
  let ?st = "\<lparr> segments = [seg ''Intro'' [], seg ''T1'' [], seg ''T2'' [], seg ''Outro'' []],
       completed_segments = Some [seg ''T2'' ''c'', seg ''Intro'' ''a'', seg ''Outro'' ''d'', seg ''T1'' ''b''] \<rparr>"
  have p: "\<forall>s\<in>set (segments ?st). title s \<in> title ` set (get_completed ?st)"
    by (simp add: get_completed_def seg_simps)
  note t = compile_concatenates_in_plan_order [OF p]
  from t obtain blocks where b: "compile_final_transcript ?st = Inr (join ''\<newline>\<newline>'' blocks)"
    "map Some blocks = map (\<lambda>s. last_dialogue (title s) (get_completed ?st)) (segments ?st)"
    by blast
  from b(2) have "map Some blocks = map Some [''a'', ''b'', ''c'', ''d'']"
    by (simp add: get_completed_def seg_simps last_dialogue_def)
  then have "blocks = [''a'', ''b'', ''c'', ''d'']"
    by (simp add: map_eq_Cons_conv)
  with b(1) have r1: "compile_final_transcript ?st = Inr ''a\<newline>\<newline>b\<newline>\<newline>c\<newline>\<newline>d''" by simp
  have "compile_final_transcript (?st\<lparr> completed_segments := Some [seg ''Intro'' ''a'', seg ''T1'' ''b'', seg ''T2'' ''c'', seg ''Outro'' ''d''] \<rparr>) = compile_final_transcript ?st"
  proof -
    from t have "\<forall>cs'. set cs' = set (get_completed ?st)
                \<and> (\<forall>a\<in>set (get_completed ?st). \<forall>b\<in>set (get_completed ?st).
                      title a = title b \<longrightarrow> dialogue a = dialogue b)
              \<longrightarrow> compile_final_transcript (?st\<lparr> completed_segments := Some cs' \<rparr>)
                    = compile_final_transcript ?st"
      by (rule conjunct2)
    then have "set [seg ''Intro'' ''a'', seg ''T1'' ''b'', seg ''T2'' ''c'', seg ''Outro'' ''d''] = set (get_completed ?st)
                \<and> (\<forall>a\<in>set (get_completed ?st). \<forall>b\<in>set (get_completed ?st).
                      title a = title b \<longrightarrow> dialogue a = dialogue b)
              \<longrightarrow> compile_final_transcript (?st\<lparr> completed_segments := Some [seg ''Intro'' ''a'', seg ''T1'' ''b'', seg ''T2'' ''c'', seg ''Outro'' ''d''] \<rparr>)
                    = compile_final_transcript ?st"
      by (rule spec)
    moreover have "set [seg ''Intro'' ''a'', seg ''T1'' ''b'', seg ''T2'' ''c'', seg ''Outro'' ''d''] = set (get_completed ?st)"
      by (auto simp: get_completed_def)
    moreover have "\<forall>a\<in>set (get_completed ?st). \<forall>b\<in>set (get_completed ?st).
                      title a = title b \<longrightarrow> dialogue a = dialogue b"
      by (simp add: get_completed_def seg_simps)
    ultimately show ?thesis by blast
  qed
  with r1 show ?thesis by simp
qed

text \<open>
  C5, as stated, fails. The merge is the concatenation of lists, not a union keyed by
  title: merging two segments with distinct titles in the two orders gives two different
  accumulators, which \<open>format_segments\<close> renders differently, and merging two segments with
  one title keeps both.
\<close>

theorem merge_keeps_order_and_duplicates_counterexample:
  "merge_completed (merge_completed [] [seg ''A'' ''x'']) [seg ''B'' ''y'']
     \<noteq> merge_completed (merge_completed [] [seg ''B'' ''y'']) [seg ''A'' ''x'']
   \<and> format_segments (merge_completed (merge_completed [] [seg ''A'' ''x'']) [seg ''B'' ''y''])
     \<noteq> format_segments (merge_completed (merge_completed [] [seg ''B'' ''y'']) [seg ''A'' ''x''])
   \<and> merge_completed (merge_completed [] [seg ''A'' ''x'']) [seg ''A'' ''y'']
     = [seg ''A'' ''x'', seg ''A'' ''y'']"
  by code_simp

text \<open>
  C5, amended. The merge appends the finished segment to the accumulator, which so keeps
  the order of arrival and every entry. Merging two segments in either order gives the
  same entries (as a multiset); when their titles differ it gives the same
  title-to-dialogue dict as \<open>compile_final_transcript\<close> builds it, hence the same
  transcript for every plan; when their titles are equal that dict holds the dialogue of
  the one merged last.
\<close>

theorem merge_appends_and_dict_is_order_independent:
  "merge_completed acc [a] = acc @ [a]
   \<and> mset (merge_completed (merge_completed acc [a]) [b])
     = mset (merge_completed (merge_completed acc [b]) [a])
   \<and> (title a \<noteq> title b \<longrightarrow>
        (\<forall>t. dict_get (completed_dict (merge_completed (merge_completed acc [a]) [b])) t
              = dict_get (completed_dict (merge_completed (merge_completed acc [b]) [a])) t)
        \<and> (\<forall>segs. compile_final_transcript
                     \<lparr> segments = segs, completed_segments = Some (merge_completed (merge_completed acc [a]) [b]) \<rparr>
                  = compile_final_transcript
                     \<lparr> segments = segs, completed_segments = Some (merge_completed (merge_completed acc [b]) [a]) \<rparr>))
   \<and> (title a = title b \<longrightarrow>
        dict_get (completed_dict (merge_completed (merge_completed acc [a]) [b])) (title b)
          = Some (dialogue b))"
proof -
  have l: "title a \<noteq> title b \<Longrightarrow> last_dialogue t ((acc @ [a]) @ [b]) = last_dialogue t ((acc @ [b]) @ [a])" for t
    by (auto simp: last_dialogue_def)
  have "title a \<noteq> title b \<Longrightarrow> compile_final_transcript
                     \<lparr> segments = segs, completed_segments = Some ((acc @ [a]) @ [b]) \<rparr>
                  = compile_final_transcript
                     \<lparr> segments = segs, completed_segments = Some ((acc @ [b]) @ [a]) \<rparr>" for segs
    by (rule compile_cong) (simp_all add: get_completed_def l del: append_assoc)
  with l show ?thesis
    by (simp add: merge_completed_def completed_dict_lookup last_dialogue_snoc del: append_assoc)
qed

theorem merge_appends_and_dict_is_order_independent_witness:
  "compile_final_transcript
     \<lparr> segments = [seg ''A'' [], seg ''B'' []],
       completed_segments = Some (merge_completed (merge_completed [] [seg ''A'' ''x'']) [seg ''B'' ''y'']) \<rparr>
     = Inr ''x\<newline>\<newline>y''
   \<and> compile_final_transcript
     \<lparr> segments = [seg ''A'' [], seg ''B'' []],
       completed_segments = Some (merge_completed (merge_completed [] [seg ''B'' ''y'']) [seg ''A'' ''x'']) \<rparr>
     = Inr ''x\<newline>\<newline>y''
   \<and> dict_get (completed_dict (merge_completed (merge_completed [] [seg ''A'' ''x'']) [seg ''A'' ''y''])) ''A''
     = Some ''y''"
  using merge_appends_and_dict_is_order_independent
          [where a = "seg ''A'' ''x''" and b = "seg ''B'' ''y''" and acc = "[]"]
        merge_appends_and_dict_is_order_independent
          [where a = "seg ''A'' ''x''" and b = "seg ''A'' ''y''" and acc = "[]"]
  by (simp add: compile_final_transcript_def get_completed_def completed_dict_def dict_of_def
      dict_get_def merge_completed_def seg_def)

section \<open>The configuration\<close>

lemma upper_names:
  "upper ''podcast_structure'' = ''PODCAST_STRUCTURE''"
  "upper ''number_of_queries'' = ''NUMBER_OF_QUERIES''"
  "upper ''max_search_depth'' = ''MAX_SEARCH_DEPTH''"
  "upper ''planner_provider'' = ''PLANNER_PROVIDER''"
  "upper ''planner_model'' = ''PLANNER_MODEL''"
  "upper ''writer_provider'' = ''WRITER_PROVIDER''"
  "upper ''writer_model'' = ''WRITER_MODEL''"
  "upper ''search_api'' = ''SEARCH_API''"
  by code_simp+

lemma field_resolved:
  "(let v = field_value env
              (case config of None \<Rightarrow> Map.empty
               | Some c \<Rightarrow> (case configurable c of None \<Rightarrow> Map.empty | Some d \<Rightarrow> d)) name
    in if truthy v then v else dflt)
   = resolved (env (upper name)) (override_of config name) dflt"
  by (auto simp: field_value_def resolved_def override_of_def Let_def split: option.splits)

text \<open>
  C7, as stated, fails. With \<open>NUMBER_OF_QUERIES=3\<close> in the environment and the override
  \<open>number_of_queries = 7\<close> in the runnable config, the field is the text \<open>3\<close> of the
  environment, not the override; and the override \<open>max_search_depth = 0\<close>, being falsy, is
  dropped for the default 4.
\<close>
theorem environment_beats_override_counterexample:
  "number_of_queries
     (from_runnable_config [''NUMBER_OF_QUERIES'' \<mapsto> ''3'']
        (Some \<lparr> configurable = Some [''number_of_queries'' \<mapsto> PInt 7] \<rparr>)) = PStr ''3''
   \<and> max_search_depth
     (from_runnable_config Map.empty
        (Some \<lparr> configurable = Some [''max_search_depth'' \<mapsto> PInt 0] \<rparr>)) = PInt 4"
  by (simp add: from_runnable_config_def field_value_def upper_names)

text \<open>
  C7, amended. Every field of the configuration is resolved with the precedence:
  the environment variable named as the field in upper case, when set, as a text (the
  default when it is set to the empty text); else the per-call override of the runnable
  config, when it is truthy; else the dataclass default.
\<close>
theorem from_runnable_config_precedence:
  "podcast_structure (from_runnable_config env config)
     = resolved (env ''PODCAST_STRUCTURE'') (override_of config ''podcast_structure'') (PStr DEFAULT_PODCAST_STRUCTURE)
   \<and> number_of_queries (from_runnable_config env config)
     = resolved (env ''NUMBER_OF_QUERIES'') (override_of config ''number_of_queries'') (PInt 15)
   \<and> max_search_depth (from_runnable_config env config)
     = resolved (env ''MAX_SEARCH_DEPTH'') (override_of config ''max_search_depth'') (PInt 4)
   \<and> planner_provider (from_runnable_config env config)
     = resolved (env ''PLANNER_PROVIDER'') (override_of config ''planner_provider'') (PEnum ''PlannerProvider'' ''OPENAI'' ''openai'')
   \<and> planner_model (from_runnable_config env config)
     = resolved (env ''PLANNER_MODEL'') (override_of config ''planner_model'') (PStr ''gpt-4o'')
   \<and> writer_provider (from_runnable_config env config)
     = resolved (env ''WRITER_PROVIDER'') (override_of config ''writer_provider'') (PEnum ''WriterProvider'' ''ANTHROPIC'' ''anthropic'')
   \<and> writer_model (from_runnable_config env config)
     = resolved (env ''WRITER_MODEL'') (override_of config ''writer_model'') (PStr ''claude-3-5-sonnet-latest'')
   \<and> search_api (from_runnable_config env config)
     = resolved (env ''SEARCH_API'') (override_of config ''search_api'') (PEnum ''SearchAPI'' ''TAVILY'' ''tavily'')"
  unfolding from_runnable_config_def
  apply (simp only: Let_def [of "case_option _ _ _"] field_resolved)
  apply (simp add: Let_def upper_names)
  done

section \<open>The segment research sub-workflow\<close>

lemma write_dialogue_cases:
  assumes "get_config_value (writer_model (from_runnable_config (environ w) config)) = Inr mn"
    and "get_config_value (writer_provider (from_runnable_config (environ w) config)) = Inr pn"
  shows "write_dialogue w config state =
     (if grade (feedbacks w (search_iterations state)) = Pass
      then Inr (Goto_END [(segment state)\<lparr> dialogue := drafts w (search_iterations state) \<rparr>])
      else Inl (AttributeError ''max_search_depth''))"
  using assms by (simp add: write_dialogue_def config_attr_def Let_def)

lemma write_dialogue_never_revises:
  "write_dialogue w config state \<noteq> Inr (Goto_search_web qs x)"
  by (simp add: write_dialogue_def config_attr_def Let_def split: sum.splits)

lemma segment_loop_one_round:
  "segment_loop w config state =
     (case search_web w config state of
        Inl e \<Rightarrow> Some (Inl e, search_iterations state)
      | Inr state1 \<Rightarrow>
          (case write_dialogue w config state1 of
             Inl e \<Rightarrow> Some (Inl e, search_iterations state1)
           | Inr c \<Rightarrow>
               (case c of
                  Goto_END update \<Rightarrow> Some (Inr update, search_iterations state1)
                | Goto_search_web qs x \<Rightarrow> None)))"
  by (subst segment_loop.simps)
     (simp add: write_dialogue_never_revises split: sum.splits command.splits)

lemma failing_grade_never_accepts:
  assumes "get_config_value (writer_model (from_runnable_config (environ w) config)) = Inr mn"
    and "get_config_value (writer_provider (from_runnable_config (environ w) config)) = Inr pn"
    and "get_config_value (search_api (from_runnable_config (environ w) config)) = Inr an"
    and "tavily_search_async w (queries_for w s) = Some rs"
    and "grade (feedbacks w 1) = Fail"
  shows "build_segment_with_research w config s h g = Some (Inl (AttributeError ''max_search_depth''), 1)"
  using assms
  by (simp add: build_segment_with_research_def segment_loop_one_round search_web_def
      generate_queries_def Let_def write_dialogue_cases [OF assms(1) assms(2)])

text \<open>
  C1. The depth check of \<open>write_dialogue\<close> reads \<open>config.max_search_depth\<close>, an attribute
  of the config dict, where the configuration built from it holds the field. The read
  raises as soon as a draft is graded \<open>fail\<close>: with maximum depth 4 and a failing first
  draft the sub-workflow ends after one search with AttributeError, and neither accepts
  the draft nor searches again. For every world whose configuration values can be read,
  \<open>failing_grade_never_accepts\<close> above gives the same outcome, and by
  \<open>write_dialogue_never_revises\<close> no run ever searches a second time.
\<close>
theorem failing_grade_raises_attribute_error:
  "build_segment_with_research failing_world
     (Some \<lparr> configurable = Some [''max_search_depth'' \<mapsto> PInt 4] \<rparr>)
     (seg ''Basics'' []) ''Host'' ''Guest''
   = Some (Inl (AttributeError ''max_search_depth''), 1)"
  by (rule failing_grade_never_accepts
        [where rs = "[]" and mn = "''claude-3-5-sonnet-latest''" and pn = "''anthropic''"
           and an = "''tavily''"])
     (simp_all add: failing_world_def from_runnable_config_def field_value_def upper_names)

section \<open>The intro and outro stage\<close>




lemma updated_completed_keeps:
  "x \<in> set (get_completed st) \<Longrightarrow> x \<in> set (updated_completed (write_intro_outro w st))"
  by (auto simp: write_intro_outro_def Let_def split: option.splits if_splits prod.splits)








section \<open>The transcript preprocessing\<close>

lemma split_on_not_Nil: "split_on sep s \<noteq> []"
  by (induction sep s rule: split_on.induct) (auto split: list.splits)

lemma replace_concat_split: "replace old [] s = concat (split_on old s)"
proof (induction old s rule: split_on.induct)
  case (1 sep)
  show ?case by simp
next
  case (2 sep c cs)
  show ?case
  proof (cases "sep \<noteq> [] \<and> prefix sep (c # cs)")
    case True
    with 2 show ?thesis by simp
  next
    case False
    obtain p ps where "split_on sep cs = p # ps"
      using split_on_not_Nil [of sep cs] by (cases "split_on sep cs") auto
    with False 2 show ?thesis by auto
  qed
qed

lemma join_Cons: "ys \<noteq> [] \<Longrightarrow> join sep (x # ys) = x @ sep @ join sep ys"
  by (cases ys) simp_all

lemma join_Cons_Cons: "join sep ((c # p) # ps) = c # join sep (p # ps)"
  by (cases ps) simp_all

lemma join_split_on: "join sep (split_on sep s) = s"
proof (induction sep s rule: split_on.induct)
  case (1 sep)
  show ?case by simp
next
  case (2 sep c cs)
  show ?case
  proof (cases "sep \<noteq> [] \<and> prefix sep (c # cs)")
    case True
    then have "c # cs = sep @ drop (length sep) (c # cs)"
      by (metis append_eq_conv_conj prefixE)
    moreover from True 2 have "join sep (split_on sep (c # cs)) = sep @ drop (length sep) (c # cs)"
      by (simp add: join_Cons split_on_not_Nil)
    ultimately show ?thesis by simp
  next
    case False
    obtain p ps where "split_on sep cs = p # ps"
      using split_on_not_Nil [of sep cs] by (cases "split_on sep cs") auto
    with False 2 show ?thesis by (auto simp: join_Cons_Cons)
  qed
qed

lemma conversations_loop_entries:
  "conversations_loop h g ls acc = acc @ concat (map (\<lambda>l. line_entries h g (strip l)) ls)"
  by (induction ls arbitrary: acc)
     (simp_all add: Let_def line_entries_def replace_concat_split)

lemma first_piece_prefix: "split_on sep s = p # ps \<Longrightarrow> prefix p s"
proof -
  assume a: "split_on sep s = p # ps"
  have "join sep (p # ps) = s" using join_split_on [of sep s] a by simp
  then show ?thesis by (cases ps) auto
qed

lemma pieces_without_label:
  "sep \<noteq> [] \<Longrightarrow> \<forall>p\<in>set (split_on sep s). \<not> sublist sep p"
proof (induction sep s rule: split_on.induct)
  case (1 sep)
  then show ?case by simp
next
  case (2 sep c cs)
  show ?case
  proof (cases "prefix sep (c # cs)")
    case True
    with 2 show ?thesis by simp
  next
    case False
    obtain p ps where s: "split_on sep cs = p # ps"
      using split_on_not_Nil [of sep cs] by (cases "split_on sep cs") auto
    have "\<not> prefix sep (c # p)"
    proof
      assume "prefix sep (c # p)"
      moreover have "prefix (c # p) (c # cs)" using first_piece_prefix [OF s] by simp
      ultimately have "prefix sep (c # cs)" by (rule prefix_order.trans)
      with False show False by simp
    qed
    moreover from 2 False s have "\<forall>q\<in>set (p # ps). \<not> sublist sep q" by simp
    ultimately show ?thesis using False s by (auto simp: sublist_Cons_right)
  qed
qed

text \<open>
  C10. \<open>preprocess_transcript\<close> deletes the asterisks, splits the transcript into lines and
  strips each; a line that starts with \<open>host_name:\<close> gives a host entry, one that starts
  with \<open>guest_name:\<close> a guest entry, and any other line (the empty one too) gives none. The
  text of an entry is the stripped concatenation of the pieces into which the label cuts
  the line: joined by the label the pieces are the line again, and no piece contains the
  label, so every occurrence that the scan from the left finds is removed, not only the
  leading one. In the witness the line \<open>Al: he said Al: hi\<close> loses the quoted label too
  and the line of \<open>Bob\<close>, who is neither host nor guest, gives no entry.
\<close>
theorem preprocess_removes_every_label:
  "preprocess_transcript transcript host_name guest_name
     = concat (map (\<lambda>l. line_entries host_name guest_name (strip l))
                   (split_on ''\<newline>'' (filter (\<lambda>c. c \<noteq> CHR ''*'') transcript)))
   \<and> join (host_name @ '':'') (split_on (host_name @ '':'') line) = line
   \<and> join (guest_name @ '':'') (split_on (guest_name @ '':'') line) = line
   \<and> (\<forall>p\<in>set (split_on (host_name @ '':'') line). \<not> sublist (host_name @ '':'') p)
   \<and> (\<forall>p\<in>set (split_on (guest_name @ '':'') line). \<not> sublist (guest_name @ '':'') p)"
  by (simp add: preprocess_transcript_def conversations_loop_entries join_split_on
      pieces_without_label)

theorem preprocess_removes_every_label_witness:
  "preprocess_transcript ''**Al:** he said Al: hi\<newline>Bob: x\<newline>\<newline>  Eve: yo '' ''Al'' ''Eve''
     = [\<lparr> role = ''host'', spoken = ''he said  hi'' \<rparr>, \<lparr> role = ''guest'', spoken = ''yo'' \<rparr>]
   \<and> split_on ''Al:'' ''Al: he said Al: hi'' = [[], '' he said '', '' hi'']"
  using preprocess_removes_every_label [of "''**Al:** he said Al: hi\<newline>Bob: x\<newline>\<newline>  Eve: yo ''" "''Al''" "''Eve''"
               "''Al: he said Al: hi''"]
  by (simp add: line_entries_def strip_def is_space_def)

end
